theory Spec2Isabelle
  imports Main
begin

section \<open>Python string primitives used by app.py\<close>

text \<open>
  Python strings are modelled as \<^typ>\<open>string\<close>, so a character is a code point below 256.
  \<open>isspace\<close> is Python's \<^verbatim>\<open>str.isspace\<close> on that range: the characters that
  \<^verbatim>\<open>str.strip()\<close> without argument removes (tab, line feed, vertical tab, form feed,
  carriage return, the four separators 0x1C..0x1F, space, NEL 0x85 and the no-break space
  0xA0).
\<close>

definition isspace :: "char \<Rightarrow> bool" where
  "isspace c =
     (let n = (of_char c :: nat)
      in (9 \<le> n \<and> n \<le> 13) \<or> (28 \<le> n \<and> n \<le> 32) \<or> n = 133 \<or> n = 160)"

text \<open>\<^verbatim>\<open>s.strip()\<close>: drop the leading and the trailing whitespace.\<close>

definition strip :: "string \<Rightarrow> string" where
  "strip s = rev (dropWhile isspace (rev (dropWhile isspace s)))"

text \<open>\<^verbatim>\<open>s.startswith(p)\<close> and \<^verbatim>\<open>s.endswith(p)\<close>.\<close>

definition startswith :: "string \<Rightarrow> string \<Rightarrow> bool" where
  "startswith s p = (take (length p) s = p)"

definition endswith :: "string \<Rightarrow> string \<Rightarrow> bool" where
  "endswith s p = (length p \<le> length s \<and> drop (length s - length p) s = p)"

text \<open>
  \<^verbatim>\<open>s.lower()\<close> on code points below 256: the ASCII capitals and the Latin-1 capitals
  0xC0..0xDE (the multiplication sign 0xD7 apart) move up by 32.
\<close>

definition lower_char :: "char \<Rightarrow> char" where
  "lower_char c =
     (let n = (of_char c :: nat)
      in if (65 \<le> n \<and> n \<le> 90) \<or> (192 \<le> n \<and> n \<le> 222 \<and> n \<noteq> 215)
         then char_of (n + 32) else c)"

definition lower :: "string \<Rightarrow> string" where
  "lower s = map lower_char s"

text \<open>\<^verbatim>\<open>sep.join(xs)\<close>.\<close>

fun join :: "string \<Rightarrow> string list \<Rightarrow> string" where
  "join sep [] = []"
| "join sep [x] = x"
| "join sep (x # y # ys) = x @ sep @ join sep (y # ys)"

text \<open>
  \<^verbatim>\<open>s.split(sep)\<close> for a one-character separator; it is not called by app.py and only
  serves to state what \<open>join\<close> preserves.
\<close>

fun split_on :: "char \<Rightarrow> string \<Rightarrow> string list" where
  "split_on c [] = [[]]"
| "split_on c (x # xs) =
     (if x = c then [] # split_on c xs
      else (case split_on c xs of [] \<Rightarrow> [[x]] | w # ws \<Rightarrow> (x # w) # ws))"

text \<open>
  The source writes its diagnostics with \<^verbatim>\<open>"\\n"\<close>, an escaped backslash followed by
  the letter n: two characters, not a line feed.
\<close>

definition backslash_n :: string where
  "backslash_n = [CHR 0x5C, CHR ''n'']"

section \<open>JSON values and the Python operations applied to them\<close>

text \<open>
  The values \<^verbatim>\<open>request.get_json()\<close> can return. A JSON object is a Python dict, kept as
  an association list read with \<^const>\<open>map_of\<close>. Numbers are integers here; floating-point
  numbers are left out of the model.
\<close>

datatype json =
    JNull
  | JBool bool
  | JInt int
  | JStr string
  | JArr "json list"
  | JObj "(string \<times> json) list"

datatype exn = TypeError | AttributeError | RequestException

text \<open>Python truthiness, as tested by \<^verbatim>\<open>if not x\<close>.\<close>

fun truthy :: "json \<Rightarrow> bool" where
  "truthy JNull = False"
| "truthy (JBool b) = b"
| "truthy (JInt n) = (n \<noteq> 0)"
| "truthy (JStr s) = (s \<noteq> [])"
| "truthy (JArr xs) = (xs \<noteq> [])"
| "truthy (JObj kvs) = (kvs \<noteq> [])"

text \<open>
  \<^verbatim>\<open>data.get(key)\<close>: on a dict the value or \<^verbatim>\<open>None\<close>; any other JSON value has no
  attribute \<^verbatim>\<open>get\<close>.
\<close>

fun dict_get :: "json \<Rightarrow> string \<Rightarrow> exn + json" where
  "dict_get (JObj kvs) k = Inr (case map_of kvs k of None \<Rightarrow> JNull | Some v \<Rightarrow> v)"
| "dict_get _ k = Inl AttributeError"

text \<open>\<^verbatim>\<open>x + "..."\<close> with a string on the right: only a string on the left can be added.\<close>

fun str_concat :: "json \<Rightarrow> string \<Rightarrow> exn + string" where
  "str_concat (JStr s) t = Inr (s @ t)"
| "str_concat _ t = Inl TypeError"

text \<open>
  \<^verbatim>\<open>{x}\<close> inside an f-string: a string is inserted as it is; the text of any other value
  is Python's \<^verbatim>\<open>format\<close>, taken as a parameter.
\<close>

fun format_value :: "(json \<Rightarrow> string) \<Rightarrow> json \<Rightarrow> string" where
  "format_value fmt (JStr s) = s"
| "format_value fmt v = fmt v"

section \<open>The LLM client\<close>

text \<open>
  A chat-completion request as the source builds it: the model name, the (role, content)
  messages, the temperature in tenths (0.5 and 0.6 in the source) and the token budget.
\<close>

record llm_request =
  model :: string
  messages :: "(string \<times> string) list"
  temperature_tenths :: nat
  max_tokens :: nat

text \<open>
  What evaluating \<^verbatim>\<open>(await client.chat.completions.create(...)).choices[0].message.content\<close>
  gives: the reply text, or an \<^verbatim>\<open>Exception\<close> (a transport or provider failure, an empty
  choice list, a missing content) with its \<^verbatim>\<open>str(e)\<close>.
\<close>

datatype llm_outcome = Raised string | Content string

text \<open>
  The process-wide configuration: the credential read from the environment at start-up,
  the provider behind \<^verbatim>\<open>client\<close>, and Python's formatting of non-string values.
\<close>

record env =
  llm_api_key :: "string option"
  llm :: "llm_request \<Rightarrow> llm_outcome"
  py_format :: "json \<Rightarrow> string"

text \<open>\<^verbatim>\<open>not llm_api_key\<close>: the variable is unset or empty.\<close>

definition key_missing :: "env \<Rightarrow> bool" where
  "key_missing e = (case llm_api_key e of None \<Rightarrow> True | Some k \<Rightarrow> k = [])"

text \<open>The state threaded through the handlers: the requests sent to the provider so far.\<close>

type_synonym llm_log = "llm_request list"

section \<open>Sanitization of the reply\<close>

text \<open>
  Lines 69 to 75 of app.py, repeated at lines 127 to 133: strip the reply, remove a leading
  \<^verbatim>\<open>```mermaid\<close> and strip, remove a trailing \<^verbatim>\<open>```\<close> and strip.
\<close>

definition open_fence :: string where
  "open_fence = ''```mermaid''"

definition close_fence :: string where
  "close_fence = ''```''"

definition strip_open :: "string \<Rightarrow> string" where
  "strip_open s = (if startswith s open_fence then strip (drop (length open_fence) s) else s)"

definition strip_close :: "string \<Rightarrow> string" where
  "strip_close s =
     (if endswith s close_fence then strip (take (length s - length close_fence) s) else s)"

definition sanitize :: "string \<Rightarrow> string" where
  "sanitize content = strip_close (strip_open (strip content))"

section \<open>Diagram synthesis and refinement\<close>

definition initial_prompt :: "string \<Rightarrow> string" where
  "initial_prompt process_text =
     ''\<newline>    Convert the following process description into Mermaid flowchart syntax (using graph TD for top-down).'' @
     ''\<newline>    Keep the flowchart clear and concise. Use brief node descriptions.'' @
     ''\<newline>    Ensure the output is ONLY the Mermaid code block, starting with ```mermaid and ending with ```.'' @
     ''\<newline>'' @
     ''\<newline>    Process Description:'' @
     ''\<newline>    ---'' @
     ''\<newline>    '' @ process_text @
     ''\<newline>    ---'' @
     ''\<newline>'' @
     ''\<newline>    Mermaid Code:'' @
     ''\<newline>    ''"

definition initial_request :: "string \<Rightarrow> llm_request" where
  "initial_request process_text =
     \<lparr> model = ''gpt-3.5-turbo'',
       messages =
         [(''system'', ''You are an expert in generating Mermaid flowchart syntax.''),
          (''user'', initial_prompt process_text)],
       temperature_tenths = 5,
       max_tokens = 1000 \<rparr>"

definition call_llm_for_initial_flowchart ::
    "env \<Rightarrow> string \<Rightarrow> llm_log \<Rightarrow> string \<times> llm_log" where
  "call_llm_for_initial_flowchart e process_text log =
     (if key_missing e
      then (''graph TD'' @ backslash_n @ ''Error[LLM API Key Not Configured]'', log)
      else
        let req = initial_request process_text; log' = log @ [req]
        in (case llm e req of
              Raised msg \<Rightarrow>
                (''graph TD'' @ backslash_n @ ''Error[Error calling LLM: '' @ msg @ '']'', log')
            | Content c \<Rightarrow>
                let mermaid_code = sanitize c
                in if \<not> startswith (strip mermaid_code) ''graph''
                   then (''graph TD'' @ backslash_n @
                           ''Error[LLM did not return valid Mermaid code]'', log')
                   else (mermaid_code, log')))"

definition refinement_prompt :: "string \<Rightarrow> string \<Rightarrow> string" where
  "refinement_prompt current_mermaid instruction =
     ''\<newline>    Refine the following Mermaid flowchart based on the user's instruction.'' @
     ''\<newline>    Output ONLY the complete, updated Mermaid code block, starting with ```mermaid and ending with ```.'' @
     ''\<newline>    Do not include explanations or apologies.'' @
     ''\<newline>'' @
     ''\<newline>    Current Mermaid Code:'' @
     ''\<newline>    ---'' @
     ''\<newline>    ```mermaid'' @
     ''\<newline>    '' @ current_mermaid @
     ''\<newline>    ```'' @
     ''\<newline>    ---'' @
     ''\<newline>'' @
     ''\<newline>    User Instruction:'' @
     ''\<newline>    ---'' @
     ''\<newline>    '' @ instruction @
     ''\<newline>    ---'' @
     ''\<newline>'' @
     ''\<newline>    Updated Mermaid Code:'' @
     ''\<newline>    ''"

definition refinement_request :: "string \<Rightarrow> string \<Rightarrow> llm_request" where
  "refinement_request current_mermaid instruction =
     \<lparr> model = ''gpt-3.5-turbo'',
       messages =
         [(''system'',
           ''You are an expert in refining Mermaid flowchart syntax based on instructions.''),
          (''user'', refinement_prompt current_mermaid instruction)],
       temperature_tenths = 6,
       max_tokens = 1500 \<rparr>"

text \<open>
  The arguments come from the JSON body unchecked, so they are JSON values; the result is
  the returned string, or the \<^verbatim>\<open>TypeError\<close> of adding a string to a non-string, which
  nothing inside the function catches.
\<close>

definition call_llm_for_refinement ::
    "env \<Rightarrow> json \<Rightarrow> json \<Rightarrow> llm_log \<Rightarrow> (exn + string) \<times> llm_log" where
  "call_llm_for_refinement e current_mermaid instruction log =
     (if key_missing e
      then (str_concat current_mermaid
              (backslash_n @ ''%% Error: LLM API Key Not Configured''), log)
      else
        let req = refinement_request (format_value (py_format e) current_mermaid)
                    (format_value (py_format e) instruction);
            log' = log @ [req]
        in (case llm e req of
              Raised msg \<Rightarrow>
                (str_concat current_mermaid (backslash_n @ ''%% LLM Error: '' @ msg), log')
            | Content c \<Rightarrow>
                let updated_mermaid_code = sanitize c
                in if \<not> startswith (strip updated_mermaid_code) ''graph''
                   then (str_concat current_mermaid
                           (backslash_n @ ''%% LLM Error: Invalid refinement response''), log')
                   else (Inr updated_mermaid_code, log')))"

section \<open>Document extraction\<close>

text \<open>
  What \<^verbatim>\<open>Document(file_stream)\<close> of python-docx makes of the uploaded bytes: it raises, or
  it gives the document, of which the source reads the text of each paragraph in order.
\<close>

datatype docx = Unreadable | Paragraphs "string list"

definition extract_text_from_docx :: "docx \<Rightarrow> string option" where
  "extract_text_from_docx file_stream =
     (case file_stream of
        Unreadable \<Rightarrow> None
      | Paragraphs full_text \<Rightarrow> Some (join ''\<newline>'' full_text))"

section \<open>The endpoints\<close>

text \<open>A response is the JSON body given to \<^verbatim>\<open>jsonify\<close> and the status code.\<close>

type_synonym response = "json \<times> nat"

definition error_response :: "string \<Rightarrow> nat \<Rightarrow> response" where
  "error_response msg status = (JObj [(''error'', JStr msg)], status)"

definition mermaid_response :: "string \<Rightarrow> response" where
  "mermaid_response code = (JObj [(''mermaid_code'', JStr code)], 200)"

text \<open>
  The part of a request to /generate that the handler reads: the entry \<^verbatim>\<open>'file'\<close> of
  \<^verbatim>\<open>request.files\<close> and the entry \<^verbatim>\<open>'text'\<close> of \<^verbatim>\<open>request.form\<close>, when present.
\<close>

record upload =
  filename :: string
  stream :: docx

record generate_request =
  files_file :: "upload option"
  form_text :: "string option"

text \<open>
  The first half of \<^verbatim>\<open>generate_flowchart\<close>: the pair \<open>(process_text, error_message)\<close> at
  line 198. An uploaded file object is truthy exactly when its file name is non-empty,
  which the first test has established where \<^verbatim>\<open>file and ...\<close> is evaluated.
\<close>

definition resolve_input :: "generate_request \<Rightarrow> string option \<times> string option" where
  "resolve_input request =
     (case files_file request of
        Some file \<Rightarrow>
          if filename file = [] then (None, Some ''No file selected.'')
          else if filename file \<noteq> [] \<and> endswith (lower (filename file)) ''.docx''
          then (case extract_text_from_docx (stream file) of
                  None \<Rightarrow> (None, Some ''Error extracting text from DOCX file.'')
                | Some process_text \<Rightarrow> (Some process_text, None))
          else (None, Some ''Invalid file type. Please upload a .docx file.'')
      | None \<Rightarrow>
          (case form_text request of
             Some text \<Rightarrow>
               let process_text = strip text
               in if process_text = []
                  then (Some process_text, Some ''Text input cannot be empty.'')
                  else (Some process_text, None)
           | None \<Rightarrow> (None, None)))"

definition generate_flowchart ::
    "env \<Rightarrow> generate_request \<Rightarrow> llm_log \<Rightarrow> response \<times> llm_log" where
  "generate_flowchart e request log =
     (case resolve_input request of
        (process_text, error_message) \<Rightarrow>
          if error_message \<noteq> None \<and> error_message \<noteq> Some []
          then (error_response (the error_message) 400, log)
          else (case process_text of
                  None \<Rightarrow>
                    (error_response ''No valid input provided (text or .docx file).'' 400, log)
                | Some text \<Rightarrow>
                    (case call_llm_for_initial_flowchart e text log of
                       (mermaid_code, log') \<Rightarrow> (mermaid_response mermaid_code, log'))))"

text \<open>
  A request to /refine is read through \<^verbatim>\<open>request.get_json()\<close> only, which raises or
  returns a JSON value.
\<close>

record refine_request =
  get_json :: "exn + json"

definition refine_failed :: response where
  "refine_failed = error_response ''An unexpected error occurred during refinement.'' 500"

definition missing_fields :: response where
  "missing_fields =
     error_response ''Missing 'current_mermaid' or 'instruction' in request.'' 400"

definition refine_flowchart ::
    "env \<Rightarrow> refine_request \<Rightarrow> llm_log \<Rightarrow> response \<times> llm_log" where
  "refine_flowchart e request log =
     (case get_json request of
        Inl ex \<Rightarrow> (refine_failed, log)
      | Inr data \<Rightarrow>
          if \<not> truthy data
          then (error_response ''Invalid request data. Expected JSON.'' 400, log)
          else (case dict_get data ''current_mermaid'' of
                  Inl ex \<Rightarrow> (refine_failed, log)
                | Inr current_mermaid \<Rightarrow>
                    (case dict_get data ''instruction'' of
                       Inl ex \<Rightarrow> (refine_failed, log)
                     | Inr instruction \<Rightarrow>
                         if \<not> truthy current_mermaid \<or> \<not> truthy instruction
                         then (missing_fields, log)
                         else (case call_llm_for_refinement e current_mermaid instruction log of
                                 (Inl ex, log') \<Rightarrow> (refine_failed, log')
                               | (Inr updated_mermaid, log') \<Rightarrow>
                                   (mermaid_response updated_mermaid, log')))))"

section \<open>Stub configurations and sample inputs\<close>

text \<open>
  A configured service whose provider answers every request with the same outcome, as a
  stubbed client in a test would, and a service started without a credential.
\<close>

definition stub_env :: "llm_outcome \<Rightarrow> env" where
  "stub_env reply =
     \<lparr> llm_api_key = Some ''sk-test'', llm = (\<lambda>req. reply), py_format = (\<lambda>v. []) \<rparr>"

definition no_key_env :: env where
  "no_key_env =
     \<lparr> llm_api_key = None, llm = (\<lambda>req. Raised []), py_format = (\<lambda>v. []) \<rparr>"

text \<open>
  A configured service whose provider call raises an exception with text \<open>msg\<close> on every
  request, and whose formatting of the non-string value in the request body gives \<open>shown\<close>.
\<close>

definition raising_env :: "string \<Rightarrow> string \<Rightarrow> env" where
  "raising_env msg shown =
     \<lparr> llm_api_key = Some ''sk-test'', llm = (\<lambda>req. Raised msg),
       py_format = (\<lambda>v. shown) \<rparr>"

text \<open>A reply holding one fenced block, and a reply whose block is fenced twice.\<close>

definition fenced_reply :: string where
  "fenced_reply = ''```mermaid\<newline>graph TD\<newline>A-->B\<newline>```''"

definition nested_fences :: string where
  "nested_fences =
     ''```mermaid\<newline>```mermaid\<newline>graph TD\<newline>```\<newline>```''"

text \<open>
  Substring test ("the text signals ..."): some suffix of the text starts with the needle.
\<close>

fun contains :: "string \<Rightarrow> string \<Rightarrow> bool" where
  "contains [] p = (p = [])"
| "contains (x # xs) p = (startswith (x # xs) p \<or> contains xs p)"

section \<open>Properties of the string primitives\<close>

text \<open>
  A string is stripped when \<^verbatim>\<open>strip\<close> has nothing to remove from it: it is empty, or
  neither its first nor its last character is whitespace.
\<close>

definition stripped :: "string \<Rightarrow> bool" where
  "stripped s = (s = [] \<or> (\<not> isspace (hd s) \<and> \<not> isspace (last s)))"

lemma strip_stripped: "stripped (strip s)"
proof -
  define t where "t = dropWhile isspace s"
  define u where "u = dropWhile isspace (rev t)"
  have su: "strip s = rev u" by (simp add: strip_def t_def u_def)
  show ?thesis
  proof (cases "u = []")
    case True
    then show ?thesis by (simp add: su stripped_def)
  next
    case False
    then have hu: "\<not> isspace (hd u)" unfolding u_def by (rule hd_dropWhile)
    have "rev t = takeWhile isspace (rev t) @ u" by (simp add: u_def)
    then have lu: "last u = last (rev t)" using False by (metis last_appendR)
    from False have tne: "t \<noteq> []" by (auto simp: u_def)
    then have "\<not> isspace (hd t)" unfolding t_def by (rule hd_dropWhile)
    with lu tne have "\<not> isspace (last u)" by (simp add: last_rev)
    with hu False show ?thesis by (simp add: su stripped_def hd_rev last_rev)
  qed
qed

lemma stripped_strip: "stripped s \<Longrightarrow> strip s = s"
proof (cases "s = []")
  case True
  then show ?thesis by (simp add: strip_def)
next
  case False
  assume "stripped s"
  with False have h: "\<not> isspace (hd s)" and l: "\<not> isspace (last s)"
    by (simp_all add: stripped_def)
  from h have d: "dropWhile isspace s = s" by (simp add: dropWhile_eq_self_iff)
  from l False have "dropWhile isspace (rev s) = rev s"
    by (simp add: dropWhile_eq_self_iff hd_rev)
  with d show ?thesis by (simp add: strip_def)
qed

lemma length_strip: "length (strip s) \<le> length s"
proof -
  have "length (strip s) = length (dropWhile isspace (rev (dropWhile isspace s)))"
    by (simp add: strip_def)
  also have "\<dots> \<le> length (rev (dropWhile isspace s))" by (rule length_dropWhile_le)
  also have "\<dots> \<le> length s" by (simp add: length_dropWhile_le)
  finally show ?thesis .
qed

lemma strip_idem: "strip (strip s) = strip s"
  by (rule stripped_strip) (rule strip_stripped)

lemma stripped_strip_open: "stripped s \<Longrightarrow> stripped (strip_open s)"
  by (simp add: strip_open_def strip_stripped)

lemma stripped_strip_close: "stripped s \<Longrightarrow> stripped (strip_close s)"
  by (simp add: strip_close_def strip_stripped)

lemma stripped_sanitize: "stripped (sanitize s)"
  unfolding sanitize_def
  by (intro stripped_strip_close stripped_strip_open strip_stripped)

lemma strip_sanitize: "strip (sanitize s) = sanitize s"
  by (rule stripped_strip) (rule stripped_sanitize)


lemma startswith_length: "startswith s p \<Longrightarrow> length p \<le> length s"
proof -
  assume "startswith s p"
  then have "length (take (length p) s) = length p" by (simp add: startswith_def)
  then show ?thesis by simp
qed

lemma strip_open_shorter:
  assumes "startswith s open_fence"
  shows "length (strip_open s) < length s"
proof -
  have n: "length open_fence = 10" by (simp add: open_fence_def)
  from assms have le: "10 \<le> length s" using startswith_length n by fastforce
  have "length (strip (drop 10 s)) \<le> length (drop 10 s)" by (rule length_strip)
  also have "\<dots> < length s" using le by simp
  finally show ?thesis using assms by (simp add: strip_open_def n)
qed

lemma strip_close_le: "length (strip_close s) \<le> length s"
proof (cases "endswith s close_fence")
  case True
  have "length (strip (take (length s - length close_fence) s))
          \<le> length (take (length s - length close_fence) s)" by (rule length_strip)
  also have "\<dots> \<le> length s" by simp
  finally show ?thesis using True by (simp add: strip_close_def)
next
  case False
  then show ?thesis by (simp add: strip_close_def)
qed

lemma strip_close_shorter:
  assumes "endswith s close_fence"
  shows "length (strip_close s) < length s"
proof -
  have n: "length close_fence = 3" by (simp add: close_fence_def)
  from assms have le: "3 \<le> length s" by (simp add: endswith_def n)
  have "length (strip (take (length s - 3) s)) \<le> length (take (length s - 3) s)"
    by (rule length_strip)
  also have "\<dots> < length s" using le by simp
  finally show ?thesis using assms by (simp add: strip_close_def n)
qed


lemma sanitize_of_clean: "sanitize (sanitize s) = strip_close (strip_open (sanitize s))"
  unfolding sanitize_def [of "sanitize s"] strip_sanitize ..

lemma sanitize_fixed_on_clean:
  assumes "\<not> startswith (sanitize s) open_fence" and "\<not> endswith (sanitize s) close_fence"
  shows "sanitize (sanitize s) = sanitize s"
  using assms by (simp add: sanitize_of_clean strip_open_def strip_close_def)

lemma sanitize_shrinks_on_fenced:
  assumes "startswith (sanitize s) open_fence \<or> endswith (sanitize s) close_fence"
  shows "length (sanitize (sanitize s)) < length (sanitize s)"
proof (cases "startswith (sanitize s) open_fence")
  case True
  have "length (sanitize (sanitize s)) \<le> length (strip_open (sanitize s))"
    unfolding sanitize_of_clean by (rule strip_close_le)
  also have "\<dots> < length (sanitize s)" using True by (rule strip_open_shorter)
  finally show ?thesis .
next
  case False
  with assms have e: "endswith (sanitize s) close_fence" by simp
  from False have "sanitize (sanitize s) = strip_close (sanitize s)"
    by (simp add: sanitize_of_clean strip_open_def)
  with e show ?thesis by (simp add: strip_close_shorter)
qed


section \<open>Idempotence of sanitization\<close>

text \<open>
  C3, as stated, fails: a reply fenced twice is still fenced after one sanitization, and a
  second sanitization changes it again.
\<close>

theorem sanitize_twice_differs:
  "sanitize nested_fences = ''```mermaid\<newline>graph TD\<newline>```'' \<and>
   sanitize (sanitize nested_fences) = ''graph TD'' \<and>
   sanitize (sanitize nested_fences) \<noteq> sanitize nested_fences"
  by code_simp

text \<open>
  C3, amended: sanitizing twice gives the same result as sanitizing once exactly when the
  once-sanitized text neither starts with the opening marker nor ends with the closing
  marker.
\<close>

theorem sanitize_idempotent_iff_clean:
  "sanitize (sanitize s) = sanitize s \<longleftrightarrow>
     \<not> startswith (sanitize s) open_fence \<and> \<not> endswith (sanitize s) close_fence"
proof
  assume eq: "sanitize (sanitize s) = sanitize s"
  show "\<not> startswith (sanitize s) open_fence \<and> \<not> endswith (sanitize s) close_fence"
  proof (rule ccontr)
    assume "\<not> ?thesis"
    then have "startswith (sanitize s) open_fence \<or> endswith (sanitize s) close_fence"
      by blast
    then have "length (sanitize (sanitize s)) < length (sanitize s)"
      by (rule sanitize_shrinks_on_fenced)
    with eq show False by simp
  qed
next
  assume "\<not> startswith (sanitize s) open_fence \<and> \<not> endswith (sanitize s) close_fence"
  then show "sanitize (sanitize s) = sanitize s"
    by (simp add: sanitize_fixed_on_clean)
qed

theorem sanitize_idempotent_iff_clean_witness:
  "sanitize (sanitize fenced_reply) = sanitize fenced_reply \<and>
   sanitize fenced_reply = ''graph TD\<newline>A-->B''"
proof -
  have clean: "\<not> startswith (sanitize fenced_reply) open_fence \<and>
               \<not> endswith (sanitize fenced_reply) close_fence"
    by code_simp
  have val: "sanitize fenced_reply = ''graph TD\<newline>A-->B''"
    by code_simp
  from clean have "sanitize (sanitize fenced_reply) = sanitize fenced_reply"
    using sanitize_idempotent_iff_clean [of fenced_reply] by blast
  with val show ?thesis by blast
qed

section \<open>What synthesis returns\<close>

lemma startswith_nonempty: "startswith s ''graph'' \<Longrightarrow> s \<noteq> []"
  by (auto simp: startswith_def)

text \<open>
  C9: whatever the configuration, the process text and the provider's outcome, the string
  returned by synthesis is non-empty and starts with "graph".
\<close>

theorem synthesize_starts_with_graph:
  "fst (call_llm_for_initial_flowchart e process_text log) \<noteq> [] \<and>
   startswith (fst (call_llm_for_initial_flowchart e process_text log)) ''graph''"
proof -
  have "startswith (fst (call_llm_for_initial_flowchart e process_text log)) ''graph''"
  proof (cases "key_missing e")
    case True
    then show ?thesis
      by (simp add: call_llm_for_initial_flowchart_def Let_def startswith_def)
  next
    case False
    show ?thesis
    proof (cases "llm e (initial_request process_text)")
      case (Raised msg)
      with False show ?thesis
        by (simp add: call_llm_for_initial_flowchart_def Let_def startswith_def)
    next
      case (Content c)
      with False show ?thesis
        by (simp add: call_llm_for_initial_flowchart_def Let_def startswith_def strip_sanitize)
    qed
  qed
  then show ?thesis by (simp add: startswith_nonempty)
qed

theorem synthesize_starts_with_graph_witness:
  "fst (call_llm_for_initial_flowchart (stub_env (Content fenced_reply)) ''a process'' []) =
     ''graph TD\<newline>A-->B'' \<and>
   startswith
     (fst (call_llm_for_initial_flowchart (stub_env (Content fenced_reply)) ''a process'' []))
     ''graph''"
proof -
  have "fst (call_llm_for_initial_flowchart (stub_env (Content fenced_reply)) ''a process'' []) =
          ''graph TD\<newline>A-->B''"
    by code_simp
  then show ?thesis
    using synthesize_starts_with_graph
            [of "stub_env (Content fenced_reply)" "''a process''" "[]"]
    by simp
qed

section \<open>Document extraction joins paragraphs\<close>

lemma split_on_no_sep: "c \<notin> set x \<Longrightarrow> split_on c x = [x]"
  by (induction x) auto

lemma split_on_append_sep: "c \<notin> set x \<Longrightarrow> split_on c (x @ c # r) = x # split_on c r"
  by (induction x) auto

lemma split_on_join:
  "ps \<noteq> [] \<Longrightarrow> (\<forall>p \<in> set ps. c \<notin> set p) \<Longrightarrow> split_on c (join [c] ps) = ps"
  by (induction "[c]" ps rule: join.induct) (simp_all add: split_on_no_sep split_on_append_sep)

text \<open>
  C8: extraction returns the paragraph texts joined by one line feed each, empty paragraphs
  included: the sample document gives "Step 1", two line feeds, "Step 2", and splitting
  the extracted text at line feeds gives back every paragraph, the empty ones too, for a
  document with at least one paragraph and no line feed inside a paragraph.
\<close>

theorem extract_joins_paragraphs:
  "extract_text_from_docx (Paragraphs [''Step 1'', '''', ''Step 2'']) =
     Some ''Step 1\<newline>\<newline>Step 2'' \<and>
   extract_text_from_docx (Paragraphs ps) = Some (join ''\<newline>'' ps) \<and>
   (ps \<noteq> [] \<and> (\<forall>p \<in> set ps. CHR ''\<newline>'' \<notin> set p) \<longrightarrow>
      map_option (split_on CHR ''\<newline>'') (extract_text_from_docx (Paragraphs ps)) = Some ps)"
  by (simp add: extract_text_from_docx_def split_on_join)

theorem extract_joins_paragraphs_witness:
  "map_option (split_on CHR ''\<newline>'')
     (extract_text_from_docx (Paragraphs [''Step 1'', '''', ''Step 2''])) =
     Some [''Step 1'', '''', ''Step 2''] \<and>
   extract_text_from_docx (Paragraphs [''Step 1'', '''', ''Step 2'']) =
     Some ''Step 1\<newline>\<newline>Step 2''"
  using extract_joins_paragraphs [of "[''Step 1'', '''', ''Step 2'']"] by simp

section \<open>The generate endpoint\<close>

lemma generate_blank_text_rejected:
  "strip t = [] \<Longrightarrow>
   generate_flowchart e \<lparr> files_file = None, form_text = Some t \<rparr> log =
     (error_response ''Text input cannot be empty.'' 400, log)"
  by (simp add: generate_flowchart_def resolve_input_def)

lemma generate_docx_calls_llm:
  "\<not> key_missing e \<Longrightarrow> fname \<noteq> [] \<Longrightarrow> endswith (lower fname) ''.docx'' \<Longrightarrow>
   snd (generate_flowchart e
          \<lparr> files_file = Some \<lparr> filename = fname, stream = Paragraphs ps \<rparr>, form_text = ft \<rparr>
          log) = log @ [initial_request (join ''\<newline>'' ps)]"
  by (simp add: generate_flowchart_def resolve_input_def extract_text_from_docx_def
        call_llm_for_initial_flowchart_def Let_def split: llm_outcome.split)

text \<open>
  C1 at an uploaded document whose two paragraphs are empty, on a configured service: the
  extracted text is one line feed, empty after trimming, yet the request is not rejected;
  the provider is called with that text and its reply is returned with status 200.
\<close>

theorem generate_empty_docx_reaches_llm:
  "extract_text_from_docx (Paragraphs ['''', '''']) = Some ''\<newline>'' \<and>
   strip ''\<newline>'' = [] \<and>
   generate_flowchart (stub_env (Content ''graph TD''))
     \<lparr> files_file = Some \<lparr> filename = ''empty.docx'', stream = Paragraphs ['''', ''''] \<rparr>,
       form_text = None \<rparr> [] =
   (mermaid_response ''graph TD'', [initial_request ''\<newline>''])"
  by code_simp

text \<open>
  C4: on a configured service whose provider answers the request for the text
  "User logs in, then sees dashboard" with the fenced block, sanitization leaves
  "graph TD", line feed, "A-->B", and the endpoint answers 200 with that text as
  \<open>mermaid_code\<close>, after exactly one call to the provider.
\<close>

theorem generate_fenced_reply_scenario:
  assumes "\<not> key_missing e"
    and "llm e (initial_request ''User logs in, then sees dashboard'') = Content fenced_reply"
  shows "sanitize fenced_reply = ''graph TD\<newline>A-->B'' \<and>
         startswith (sanitize fenced_reply) ''graph'' \<and>
         generate_flowchart e
           \<lparr> files_file = None, form_text = Some ''User logs in, then sees dashboard'' \<rparr> log =
           ((JObj [(''mermaid_code'', JStr ''graph TD\<newline>A-->B'')], 200),
            log @ [initial_request ''User logs in, then sees dashboard''])"
proof -
  have s: "sanitize fenced_reply = ''graph TD\<newline>A-->B''" by code_simp
  have g: "startswith ''graph TD\<newline>A-->B'' ''graph''" by code_simp
  have t: "strip ''User logs in, then sees dashboard'' = ''User logs in, then sees dashboard''"
    by code_simp
  have st: "strip ''graph TD\<newline>A-->B'' = ''graph TD\<newline>A-->B''" by code_simp
  have r: "resolve_input
             \<lparr> files_file = None, form_text = Some ''User logs in, then sees dashboard'' \<rparr> =
           (Some ''User logs in, then sees dashboard'', None)"
    by (simp add: resolve_input_def t del: strip_def)
  have c: "call_llm_for_initial_flowchart e ''User logs in, then sees dashboard'' log =
           (''graph TD\<newline>A-->B'', log @ [initial_request ''User logs in, then sees dashboard''])"
    using assms by (simp add: call_llm_for_initial_flowchart_def Let_def s st g)
  have "generate_flowchart e
           \<lparr> files_file = None, form_text = Some ''User logs in, then sees dashboard'' \<rparr> log =
           (mermaid_response ''graph TD\<newline>A-->B'',
            log @ [initial_request ''User logs in, then sees dashboard''])"
    by (simp add: generate_flowchart_def r c)
  then show ?thesis by (simp add: s g mermaid_response_def)
qed

theorem generate_fenced_reply_scenario_witness:
  "generate_flowchart (stub_env (Content fenced_reply))
     \<lparr> files_file = None, form_text = Some ''User logs in, then sees dashboard'' \<rparr> [] =
     ((JObj [(''mermaid_code'', JStr ''graph TD\<newline>A-->B'')], 200),
      [initial_request ''User logs in, then sees dashboard''])"
proof -
  have k: "\<not> key_missing (stub_env (Content fenced_reply))"
    by (simp add: key_missing_def stub_env_def)
  have l: "llm (stub_env (Content fenced_reply))
             (initial_request ''User logs in, then sees dashboard'') = Content fenced_reply"
    by (simp add: stub_env_def)
  from generate_fenced_reply_scenario [OF k l, of "[]"] show ?thesis by simp
qed

section \<open>Refinement and its fallback\<close>

lemma refine_invalid_reply:
  assumes "\<not> key_missing e"
    and "llm e (refinement_request cur instr) = Content c"
    and "\<not> startswith (sanitize c) ''graph''"
  shows "call_llm_for_refinement e (JStr cur) (JStr instr) log =
           (Inr (cur @ backslash_n @ ''%% LLM Error: Invalid refinement response''),
            log @ [refinement_request cur instr])"
  using assms by (simp add: call_llm_for_refinement_def Let_def strip_sanitize)

text \<open>
  C2 at its own scenario, on a configured service whose provider replies with text that does
  not start with "graph": the endpoint answers 200 with the current diagram followed by a
  backslash, the letter n and the diagnostic. What is appended starts with a backslash,
  not with a line feed, so the body differs from the one the claim gives.
\<close>

theorem refine_fallback_appends_backslash_n:
  "refine_flowchart (stub_env (Content ''Sorry, I cannot do that.''))
     \<lparr> get_json = Inr (JObj [(''current_mermaid'', JStr ''graph TD\<newline>A-->B''),
                              (''instruction'', JStr ''add a step C after B'')]) \<rparr> [] =
     ((JObj [(''mermaid_code'',
              JStr (''graph TD\<newline>A-->B'' @ [CHR 0x5C, CHR ''n''] @
                    ''%% LLM Error: Invalid refinement response''))], 200),
      [refinement_request ''graph TD\<newline>A-->B'' ''add a step C after B'']) \<and>
   fst (refine_flowchart (stub_env (Content ''Sorry, I cannot do that.''))
     \<lparr> get_json = Inr (JObj [(''current_mermaid'', JStr ''graph TD\<newline>A-->B''),
                              (''instruction'', JStr ''add a step C after B'')]) \<rparr> []) \<noteq>
     (JObj [(''mermaid_code'',
             JStr ''graph TD\<newline>A-->B\<newline>%% LLM Error: Invalid refinement response'')],
      200)"
  by code_simp

theorem refine_fallback_appends_backslash_n_witness:
  "refine_flowchart (stub_env (Content ''Sorry, I cannot do that.''))
     \<lparr> get_json = Inr (JObj [(''current_mermaid'', JStr ''graph TD\<newline>A-->B''),
                              (''instruction'', JStr ''add a step C after B'')]) \<rparr> [] =
     ((JObj [(''mermaid_code'',
              JStr (''graph TD\<newline>A-->B'' @ [CHR 0x5C, CHR ''n''] @
                    ''%% LLM Error: Invalid refinement response''))], 200),
      [refinement_request ''graph TD\<newline>A-->B'' ''add a step C after B''])"
  using refine_fallback_appends_backslash_n by (rule conjunct1)

text \<open>
  C5, as stated, fails: the refine route hands the fields of the JSON body on unchecked, and
  with the number 5 as \<open>current_mermaid\<close> and a provider call that raises, the
  concatenation inside the except clause raises \<open>TypeError\<close>. An exception leaves
  refinement, no annotated diagram is returned, and the route answers 500.
\<close>

theorem refine_non_string_current_propagates:
  "call_llm_for_refinement (raising_env ''Request timed out.'' ''5'')
     (JInt 5) (JStr ''add C'') [] =
     (Inl TypeError, [refinement_request ''5'' ''add C'']) \<and>
   refine_flowchart (raising_env ''Request timed out.'' ''5'')
     \<lparr> get_json = Inr (JObj [(''current_mermaid'', JInt 5),
                              (''instruction'', JStr ''add C'')]) \<rparr> [] =
     ((JObj [(''error'', JStr ''An unexpected error occurred during refinement.'')], 500),
      [refinement_request ''5'' ''add C''])"
  by code_simp

text \<open>
  C5, amended: on a configured service, when the provider call raises an exception with
  text \<open>msg\<close>, synthesis returns the error diagram holding \<open>msg\<close>, and refinement of a
  current diagram that is a string returns that diagram followed by the annotation holding
  \<open>msg\<close>, whatever JSON value the instruction is; refinement of a string diagram returns
  a string whatever the provider does.
\<close>

theorem llm_exception_absorbed:
  assumes "\<not> key_missing e"
  shows "(llm e (initial_request process_text) = Raised msg \<longrightarrow>
            call_llm_for_initial_flowchart e process_text log =
              (''graph TD'' @ backslash_n @ ''Error[Error calling LLM: '' @ msg @ '']'',
               log @ [initial_request process_text])) \<and>
         (llm e (refinement_request cur (format_value (py_format e) instruction)) =
            Raised msg \<longrightarrow>
            call_llm_for_refinement e (JStr cur) instruction log =
              (Inr (cur @ backslash_n @ ''%% LLM Error: '' @ msg),
               log @ [refinement_request cur (format_value (py_format e) instruction)])) \<and>
         (\<exists>r. fst (call_llm_for_refinement e (JStr cur) instruction log) = Inr r)"
  using assms
  by (simp add: call_llm_for_initial_flowchart_def call_llm_for_refinement_def Let_def
        split: llm_outcome.split)

theorem llm_exception_absorbed_witness:
  "call_llm_for_initial_flowchart (stub_env (Raised ''Request timed out.''))
     ''Order process'' [] =
     (''graph TD'' @ backslash_n @ ''Error[Error calling LLM: Request timed out.]'',
      [initial_request ''Order process'']) \<and>
   call_llm_for_refinement (stub_env (Raised ''Request timed out.''))
     (JStr ''graph TD'') (JStr ''add C'') [] =
     (Inr (''graph TD'' @ backslash_n @ ''%% LLM Error: Request timed out.''),
      [refinement_request ''graph TD'' ''add C''])"
proof -
  have k: "\<not> key_missing (stub_env (Raised ''Request timed out.''))"
    by (simp add: key_missing_def stub_env_def)
  from llm_exception_absorbed
         [OF k, of "''Order process''" "''Request timed out.''" "[]" "''graph TD''"
            "JStr ''add C''"]
  show ?thesis by (simp add: stub_env_def)
qed

text \<open>
  C6: without a credential (the variable unset or empty), synthesis returns the fixed
  diagram, which contains "API Key Not Configured", and refinement of a string diagram
  returns it followed by the credential annotation; neither sends a request to the
  provider: the log of requests is returned as it was.
\<close>

theorem missing_key_no_llm_call:
  assumes "key_missing e"
  shows "call_llm_for_initial_flowchart e process_text log =
           (''graph TD'' @ backslash_n @ ''Error[LLM API Key Not Configured]'', log) \<and>
         contains (fst (call_llm_for_initial_flowchart e process_text log))
           ''API Key Not Configured'' \<and>
         call_llm_for_refinement e (JStr cur) instruction log =
           (Inr (cur @ backslash_n @ ''%% Error: LLM API Key Not Configured''), log)"
proof -
  have c: "contains (''graph TD'' @ backslash_n @ ''Error[LLM API Key Not Configured]'')
             ''API Key Not Configured''"
    by code_simp
  from assms c show ?thesis
    by (simp add: call_llm_for_initial_flowchart_def call_llm_for_refinement_def
          del: contains.simps)
qed

theorem missing_key_no_llm_call_witness:
  "call_llm_for_initial_flowchart no_key_env ''Order process: receive, ship, invoice'' [] =
     (''graph TD'' @ backslash_n @ ''Error[LLM API Key Not Configured]'', []) \<and>
   call_llm_for_refinement no_key_env (JStr ''graph TD'') (JStr ''add C'') [] =
     (Inr (''graph TD'' @ backslash_n @ ''%% Error: LLM API Key Not Configured''), [])"
proof -
  have k: "key_missing no_key_env" by (simp add: key_missing_def no_key_env_def)
  from missing_key_no_llm_call
         [OF k, of "''Order process: receive, ship, invoice''" "[]" "''graph TD''" "JStr ''add C''"]
  show ?thesis by simp
qed

section \<open>Validation of the refine request\<close>

lemma refine_falsy_field:
  assumes "kvs \<noteq> []"
    and "\<not> truthy (case map_of kvs ''current_mermaid'' of None \<Rightarrow> JNull | Some v \<Rightarrow> v) \<or>
         \<not> truthy (case map_of kvs ''instruction'' of None \<Rightarrow> JNull | Some v \<Rightarrow> v)"
  shows "refine_flowchart e \<lparr> get_json = Inr (JObj kvs) \<rparr> log = (missing_fields, log)"
  using assms by (auto simp add: refine_flowchart_def)

text \<open>
  The fields are not checked to be strings: a truthy non-string \<open>current_mermaid\<close> makes
  the concatenation in the fallback raise, which the route answers with status 500.
\<close>

lemma refine_non_string_current:
  assumes "key_missing e"
  shows "refine_flowchart e
           \<lparr> get_json = Inr (JObj [(''current_mermaid'', JInt 5),
                                     (''instruction'', JStr ''add C'')]) \<rparr> log =
           (refine_failed, log)"
  using assms by (simp add: refine_flowchart_def call_llm_for_refinement_def)

text \<open>
  C7, as stated, fails: the empty JSON object lacks both keys and is answered 400 with
  "Invalid request data. Expected JSON.", by the test for a falsy body that comes first.
\<close>

theorem refine_empty_object_not_missing_fields:
  "map_of [] ''instruction'' = (None :: json option) \<and>
   refine_flowchart (stub_env (Content fenced_reply)) \<lparr> get_json = Inr (JObj []) \<rparr> [] =
     ((JObj [(''error'', JStr ''Invalid request data. Expected JSON.'')], 400), []) \<and>
   fst (refine_flowchart (stub_env (Content fenced_reply)) \<lparr> get_json = Inr (JObj []) \<rparr> []) \<noteq>
     (JObj [(''error'', JStr ''Missing 'current_mermaid' or 'instruction' in request.'')], 400)"
  by (simp add: refine_flowchart_def error_response_def)

text \<open>
  C7, amended: a refine request whose JSON body is a non-empty object lacking the
  \<open>current_mermaid\<close> key or the \<open>instruction\<close> key is answered 400 with
  "Missing 'current_mermaid' or 'instruction' in request.", and no request is sent to the
  provider.
\<close>

theorem refine_missing_key_rejected:
  assumes "kvs \<noteq> []"
    and "map_of kvs ''current_mermaid'' = None \<or> map_of kvs ''instruction'' = None"
  shows "refine_flowchart e \<lparr> get_json = Inr (JObj kvs) \<rparr> log =
           ((JObj [(''error'', JStr ''Missing 'current_mermaid' or 'instruction' in request.'')],
             400), log)"
proof -
  from assms(2)
  have "\<not> truthy (case map_of kvs ''current_mermaid'' of None \<Rightarrow> JNull | Some v \<Rightarrow> v) \<or>
        \<not> truthy (case map_of kvs ''instruction'' of None \<Rightarrow> JNull | Some v \<Rightarrow> v)"
    by auto
  with assms(1) have "refine_flowchart e \<lparr> get_json = Inr (JObj kvs) \<rparr> log = (missing_fields, log)"
    by (rule refine_falsy_field)
  then show ?thesis by (simp add: missing_fields_def error_response_def)
qed

theorem refine_missing_key_rejected_witness:
  "refine_flowchart (stub_env (Content fenced_reply))
     \<lparr> get_json = Inr (JObj [(''current_mermaid'', JStr ''graph TD\<newline>A-->B'')]) \<rparr> [] =
     ((JObj [(''error'', JStr ''Missing 'current_mermaid' or 'instruction' in request.'')],
       400), [])"
  using refine_missing_key_rejected
          [of "[(''current_mermaid'', JStr ''graph TD\<newline>A-->B'')]"
              "stub_env (Content fenced_reply)" "[]"]
  by simp

text \<open>
  C10: a refine request whose JSON body gives \<open>current_mermaid\<close> or \<open>instruction\<close> the
  empty string is answered 400 with "Missing 'current_mermaid' or 'instruction' in
  request." and sends nothing to the provider, exactly as a body that lacks the
  \<open>instruction\<close> key is.
\<close>

theorem refine_empty_string_rejected:
  assumes "map_of kvs ''current_mermaid'' = Some (JStr []) \<or>
           map_of kvs ''instruction'' = Some (JStr [])"
  shows "refine_flowchart e \<lparr> get_json = Inr (JObj kvs) \<rparr> log =
           ((JObj [(''error'', JStr ''Missing 'current_mermaid' or 'instruction' in request.'')],
             400), log) \<and>
         refine_flowchart e \<lparr> get_json = Inr (JObj kvs) \<rparr> log =
           refine_flowchart e
             \<lparr> get_json = Inr (JObj [(''current_mermaid'', JStr ''graph TD'')]) \<rparr> log"
proof -
  from assms have ne: "kvs \<noteq> []" by auto
  from assms
  have "\<not> truthy (case map_of kvs ''current_mermaid'' of None \<Rightarrow> JNull | Some v \<Rightarrow> v) \<or>
        \<not> truthy (case map_of kvs ''instruction'' of None \<Rightarrow> JNull | Some v \<Rightarrow> v)"
    by auto
  with ne have a: "refine_flowchart e \<lparr> get_json = Inr (JObj kvs) \<rparr> log = (missing_fields, log)"
    by (rule refine_falsy_field)
  have b: "refine_flowchart e
             \<lparr> get_json = Inr (JObj [(''current_mermaid'', JStr ''graph TD'')]) \<rparr> log =
           (missing_fields, log)"
    by (rule refine_falsy_field) simp_all
  from a b show ?thesis by (simp add: missing_fields_def error_response_def)
qed

theorem refine_empty_string_rejected_witness:
  "refine_flowchart (stub_env (Content fenced_reply))
     \<lparr> get_json = Inr (JObj [(''current_mermaid'', JStr ''graph TD''),
                              (''instruction'', JStr '''')]) \<rparr> [] =
     ((JObj [(''error'', JStr ''Missing 'current_mermaid' or 'instruction' in request.'')],
       400), [])"
  using refine_empty_string_rejected
          [of "[(''current_mermaid'', JStr ''graph TD''), (''instruction'', JStr '''')]"
              "stub_env (Content fenced_reply)" "[]"]
  by simp

end
